theory Spec2Isabelle
  imports
    Complex_Main
    "HOL-Library.AList"
    "HOL-Library.Char_ord"
    "HOL-Library.List_Lexorder"
    "HOL-Library.Product_Lexorder"
begin

section \<open>Python values in attribute tables\<close>

text \<open>
  The preprocessing script \<^verbatim>\<open>scripts/preprocess_data.py\<close> works on GeoDataFrames: tables
  whose rows carry attribute values and one geometry. An attribute value is a string, an
  integer or a missing marker (Python's None, or NaN); float attributes are not modelled.
  Geometries and the predicates on them belong to the geometry library, so the model takes
  them as parameters: a type \<open>'g\<close> of geometries and the functions the script calls on
  them. Every feature of the model has a geometry.
\<close>

datatype pyval = PStr string | PInt int | PNone | PNaN

text \<open>\<^verbatim>\<open>str.isspace\<close> on the code points below 256.\<close>

definition py_isspace :: "char \<Rightarrow> bool" where
  "py_isspace c = ((of_char c :: nat) \<in> {9, 10, 11, 12, 13, 28, 29, 30, 31, 32, 133, 160})"

text \<open>\<^verbatim>\<open>str.strip()\<close>: whitespace is removed at both ends.\<close>

definition strip :: "string \<Rightarrow> string" where
  "strip s = rev (dropWhile py_isspace (rev (dropWhile py_isspace s)))"

fun digits :: "nat \<Rightarrow> string" where
  "digits n = (if n < 10 then [char_of (48 + n)]
               else digits (n div 10) @ [char_of (48 + n mod 10)])"

declare digits.simps [simp del]

definition str_int :: "int \<Rightarrow> string" where
  "str_int i = (if i < 0 then CHR ''-'' # digits (nat (- i)) else digits (nat i))"

text \<open>\<^verbatim>\<open>Series.astype(str)\<close>, one cell: a missing marker becomes its printed name.\<close>

fun py_str :: "pyval \<Rightarrow> string" where
  "py_str (PStr s) = s"
| "py_str (PInt i) = str_int i"
| "py_str PNone = ''None''"
| "py_str PNaN = ''nan''"








section \<open>Tables and file reads\<close>

record 'g feature =
  vals :: "string \<Rightarrow> pyval"
  geom :: 'g

text \<open>
  A GeoDataFrame: its coordinate reference system (an EPSG code, or none), the names of
  its attribute columns and its rows in file order.
\<close>

record 'g gdf =
  crs :: "nat option"
  columns :: "string list"
  rows :: "'g feature list"

text \<open>The outcome of \<^verbatim>\<open>gpd.read_file\<close>: an exception or a table.\<close>

datatype 'g file_read = ReadFails | ReadOk "'g gdf"

datatype error = ReadError | CrsError | CastError | NoValidTreeFiles

text \<open>
  The spec's error taxonomy: a \<^verbatim>\<open>LoadError\<close> is the failure to read a required input, or
  the script's own \<^verbatim>\<open>FileNotFoundError("No valid tree files found")\<close>.
\<close>

definition is_load_error :: "error \<Rightarrow> bool" where
  "is_load_error e = (e = ReadError \<or> e = NoValidTreeFiles)"

text \<open>
  \<^verbatim>\<open>GeoDataFrame.to_crs(epsg=...)\<close>: raises on a table without a CRS, otherwise maps every
  geometry with the library's coordinate transformation \<open>tr src dst\<close>.
\<close>

definition to_crs :: "(nat \<Rightarrow> nat \<Rightarrow> 'g \<Rightarrow> 'g) \<Rightarrow> nat \<Rightarrow> 'g gdf \<Rightarrow> error + 'g gdf" where
  "to_crs tr epsg d = (case crs d of
       None \<Rightarrow> Inl CrsError
     | Some c \<Rightarrow> Inr (d\<lparr>crs := Some epsg,
                        rows := map (\<lambda>r. r\<lparr>geom := tr c epsg (geom r)\<rparr>) (rows d)\<rparr>))"

section \<open>Step 1: ward boundaries\<close>

record 'g ward =
  ward_id :: int
  ward_name :: pyval
  geometry :: 'g


text \<open>Lines 59 to 62: the ward name column if the table has one, else "Ward " and the id.\<close>

definition assign_ward_name :: "'g gdf \<Rightarrow> 'g feature \<Rightarrow> int \<Rightarrow> pyval" where
  "assign_ward_name d r wid =
     (if ''KGISWardName'' \<in> set (columns d) then vals r ''KGISWardName''
      else PStr (''Ward '' @ str_int wid))"

definition make_ward :: "'g gdf \<Rightarrow> 'g feature \<times> int \<Rightarrow> 'g ward" where
  "make_ward d = (\<lambda>(r, wid).
     \<lparr>ward_id = wid, ward_name = assign_ward_name d r wid, geometry = geom r\<rparr>)"


section \<open>Step 2: tree census files\<close>

text \<open>One entry of \<^verbatim>\<open>TREE_FILES\<close>: whether the path exists and what reading it gives.\<close>

record 'g tree_file =
  path :: string
  file_exists :: bool
  content :: "'g file_read"

record 'g tree =
  tree_type :: string
  tree_geom :: 'g

text \<open>
  Lines 76 to 81. The test is on the columns of the table, once for the whole file; the
  cells of the chosen column are converted to strings and stripped.
\<close>

definition normalize_tree_type :: "'g gdf \<Rightarrow> 'g feature \<Rightarrow> string" where
  "normalize_tree_type d r =
     (if ''TreeName'' \<in> set (columns d) then strip (py_str (vals r ''TreeName''))
      else if ''tree_type'' \<in> set (columns d) then strip (py_str (vals r ''tree_type''))
      else ''unknown'')"

text \<open>The body of the \<^verbatim>\<open>try\<close>, lines 72 to 83: read, reproject, normalise.\<close>

definition load_tree_layer :: "(nat \<Rightarrow> nat \<Rightarrow> 'g \<Rightarrow> 'g) \<Rightarrow> 'g tree_file \<Rightarrow> error + 'g tree list" where
  "load_tree_layer tr f = (case content f of
       ReadFails \<Rightarrow> Inl ReadError
     | ReadOk raw \<Rightarrow> (case to_crs tr 4326 raw of
           Inl e \<Rightarrow> Inl e
         | Inr d \<Rightarrow> Inr (map (\<lambda>r. \<lparr>tree_type = normalize_tree_type d r, tree_geom = geom r\<rparr>)
                          (rows d))))"

text \<open>
  The loop of lines 69 to 85: the layers appended to \<^verbatim>\<open>tree_layers\<close>, in file order, and
  the paths for which the \<^verbatim>\<open>except\<close> branch printed its message.
\<close>

fun tree_layers :: "(nat \<Rightarrow> nat \<Rightarrow> 'g \<Rightarrow> 'g) \<Rightarrow> 'g tree_file list \<Rightarrow> 'g tree list list" where
  "tree_layers tr [] = []"
| "tree_layers tr (f # fs) =
     (if file_exists f
      then (case load_tree_layer tr f of
              Inr layer \<Rightarrow> layer # tree_layers tr fs
            | Inl e \<Rightarrow> tree_layers tr fs)
      else tree_layers tr fs)"

fun tree_warnings :: "(nat \<Rightarrow> nat \<Rightarrow> 'g \<Rightarrow> 'g) \<Rightarrow> 'g tree_file list \<Rightarrow> string list" where
  "tree_warnings tr [] = []"
| "tree_warnings tr (f # fs) =
     (if file_exists f
      then (case load_tree_layer tr f of
              Inr layer \<Rightarrow> tree_warnings tr fs
            | Inl e \<Rightarrow> path f # tree_warnings tr fs)
      else tree_warnings tr fs)"

text \<open>Lines 87 to 91: raise if no layer was appended, else concatenate.\<close>

definition load_trees :: "(nat \<Rightarrow> nat \<Rightarrow> 'g \<Rightarrow> 'g) \<Rightarrow> 'g tree_file list \<Rightarrow> error + 'g tree list" where
  "load_trees tr files =
     (if tree_layers tr files = [] then Inl NoValidTreeFiles
      else Inr (concat (tree_layers tr files)))"

text \<open>A file counts as loaded when it exists and the body of the \<^verbatim>\<open>try\<close> completes.\<close>

definition loaded_ok :: "'g tree_file \<Rightarrow> bool" where
  "loaded_ok f = (file_exists f \<and>
     (case content f of ReadFails \<Rightarrow> False | ReadOk raw \<Rightarrow> crs raw \<noteq> None))"

text \<open>
  What a loaded file contributes, read off the raw table: one tree per feature, in file
  order, with the normalised type and the geometry reprojected from the CRS of the file.
\<close>

definition reprojected_layer :: "(nat \<Rightarrow> nat \<Rightarrow> 'g \<Rightarrow> 'g) \<Rightarrow> 'g tree_file \<Rightarrow> 'g tree list" where
  "reprojected_layer tr f = (case content f of
       ReadFails \<Rightarrow> []
     | ReadOk raw \<Rightarrow>
         map (\<lambda>r. \<lparr>tree_type = normalize_tree_type raw r,
                    tree_geom = tr (the (crs raw)) 4326 (geom r)\<rparr>) (rows raw))"

section \<open>Step 3: schools\<close>


section \<open>Step 5: average elevation per ward\<close>

text \<open>
  A float64 cell: NaN, an infinity, or a finite number. Finite numbers are added and
  divided as reals, so rounding and overflow are outside the model; the special values
  follow IEEE 754.
\<close>

datatype f64 = Fin real | PInf | NInf | NaN

fun is_nan :: "f64 \<Rightarrow> bool" where
  "is_nan NaN = True"
| "is_nan _ = False"


text \<open>The comparison \<^verbatim>\<open>==\<close> of two floats: NaN equals nothing.\<close>

fun feq :: "f64 \<Rightarrow> f64 \<Rightarrow> bool" where
  "feq NaN _ = False"
| "feq _ NaN = False"
| "feq x y = (x = y)"

fun fadd :: "f64 \<Rightarrow> f64 \<Rightarrow> f64" where
  "fadd NaN _ = NaN"
| "fadd _ NaN = NaN"
| "fadd PInf NInf = NaN"
| "fadd NInf PInf = NaN"
| "fadd PInf _ = PInf"
| "fadd _ PInf = PInf"
| "fadd NInf _ = NInf"
| "fadd _ NInf = NInf"
| "fadd (Fin a) (Fin b) = Fin (a + b)"

definition fsum :: "f64 list \<Rightarrow> f64" where
  "fsum xs = foldr fadd xs (Fin 0)"

text \<open>Division of a float by a count, as numpy's true division does it.\<close>

fun fdiv_count :: "f64 \<Rightarrow> nat \<Rightarrow> f64" where
  "fdiv_count NaN n = NaN"
| "fdiv_count PInf n = PInf"
| "fdiv_count NInf n = NInf"
| "fdiv_count (Fin r) n =
     (if n = 0 then (if r = 0 then NaN else if 0 < r then PInf else NInf)
      else Fin (r / real n))"

text \<open>
  \<^verbatim>\<open>np.nanmean\<close> on a float array: NaN cells are replaced by zero, the array is summed and
  the sum is divided by the number of cells that were not NaN.
\<close>

definition nanmean :: "f64 list \<Rightarrow> f64" where
  "nanmean band =
     (let arr = map (\<lambda>x. if is_nan x then Fin 0 else x) band;
          cnt = length (filter (\<lambda>x. \<not> is_nan x) band);
          tot = fsum arr
      in fdiv_count tot cnt)"

text \<open>Line 144: \<^verbatim>\<open>band[band == nodata] = np.nan\<close>.\<close>

definition replace_nodata :: "f64 \<Rightarrow> f64 list \<Rightarrow> f64 list" where
  "replace_nodata nd band = map (\<lambda>x. if feq x nd then NaN else x) band"

text \<open>
  Lines 140 to 148 for one ward geometry. \<open>mask_fn\<close> is \<^verbatim>\<open>rasterio.mask.mask\<close> on the
  clipped raster with \<^verbatim>\<open>crop=True\<close>: None when it raises, else the cells of the first band
  as float64. The bare \<^verbatim>\<open>except\<close> records None. The clipping of step 4 is not part of
  the model: the clipped raster is given by \<open>mask_fn\<close> and its nodata value.
\<close>

definition zonal_mean :: "('g \<Rightarrow> f64 list option) \<Rightarrow> f64 option \<Rightarrow> 'g \<Rightarrow> f64 option" where
  "zonal_mean mask_fn nodata g = (case mask_fn g of
       None \<Rightarrow> None
     | Some band \<Rightarrow>
         (let band' = (case nodata of None \<Rightarrow> band | Some nd \<Rightarrow> replace_nodata nd band);
              mean_val = nanmean band'
          in if is_nan mean_val then None else Some mean_val))"



text \<open>
  The loop of lines 138 to 148: a dict from ward id to the value recorded; a later ward
  with the same id overwrites the entry. \<open>to_dem\<close> is the reprojection of line 137.
\<close>

definition avg_elevs ::
  "('g \<Rightarrow> 'g) \<Rightarrow> ('g \<Rightarrow> f64 list option) \<Rightarrow> f64 option \<Rightarrow> 'g ward list \<Rightarrow> (int \<times> f64 option) list" where
  "avg_elevs to_dem mask_fn nodata wards =
     fold (\<lambda>w. AList.update (ward_id w) (zonal_mean mask_fn nodata (to_dem (geometry w))))
       wards []"

section \<open>Step 6: spatial joins\<close>

text \<open>
  \<^verbatim>\<open>gpd.sjoin(left, wards, how="left", predicate="within")\<close>: one row for every pair of a
  left feature and a ward whose polygon the feature is within; a left feature within no
  ward keeps one row with a missing ward id. \<open>is_within\<close> is the library's predicate and
  \<open>gm\<close> reads the geometry of a left feature.
\<close>

definition sjoin_left ::
  "('g \<Rightarrow> 'g \<Rightarrow> bool) \<Rightarrow> ('a \<Rightarrow> 'g) \<Rightarrow> 'a list \<Rightarrow> 'g ward list \<Rightarrow> ('a \<times> int option) list" where
  "sjoin_left is_within gm pts wards = concat (map (\<lambda>p.
       (let hits = filter (\<lambda>w. is_within (gm p) (geometry w)) wards
        in if hits = [] then [(p, None)] else map (\<lambda>w. (p, Some (ward_id w))) hits)) pts)"

section \<open>Step 7: aggregation\<close>

text \<open>\<^verbatim>\<open>dropna(subset=["ward_id"])\<close>: the rows that have a ward id.\<close>

definition dropna_ward :: "('a \<times> int option) list \<Rightarrow> ('a \<times> int) list" where
  "dropna_ward joined = concat (map (\<lambda>(p, w). case w of None \<Rightarrow> [] | Some wid \<Rightarrow> [(p, wid)]) joined)"

text \<open>
  \<^verbatim>\<open>groupby(keys).size().reset_index(name=...)\<close>: one row per key that occurs, in sorted key
  order, with the number of rows that have the key.
\<close>

definition groupby_size :: "('k::linorder) list \<Rightarrow> ('k \<times> nat) list" where
  "groupby_size keys = map (\<lambda>k. (k, count_list keys k)) (sort (remdups keys))"

text \<open>Lines 163 to 168.\<close>

definition tree_counts ::
  "('g \<Rightarrow> 'g \<Rightarrow> bool) \<Rightarrow> 'g tree list \<Rightarrow> 'g ward list \<Rightarrow> ((int \<times> string) \<times> nat) list" where
  "tree_counts is_within trees wards =
     groupby_size (map (\<lambda>(t, wid). (wid, tree_type t))
       (dropna_ward (sjoin_left is_within tree_geom trees wards)))"

text \<open>\<^verbatim>\<open>dict(pairs)\<close>: insertion order, a repeated key overwrites its value.\<close>

definition py_dict :: "('k \<times> 'v) list \<Rightarrow> ('k \<times> 'v) list" where
  "py_dict kvs = fold (\<lambda>(k, v). AList.update k v) kvs []"

text \<open>\<^verbatim>\<open>d.get(k, default)\<close>.\<close>

definition dict_get :: "('k \<times> 'v) list \<Rightarrow> 'k \<Rightarrow> 'v \<Rightarrow> 'v" where
  "dict_get d k dflt = (case map_of d k of None \<Rightarrow> dflt | Some v \<Rightarrow> v)"

text \<open>The rows of one ward id in the table of counts, as (tree type, count) pairs.\<close>

definition ward_rows :: "((int \<times> string) \<times> nat) list \<Rightarrow> int \<Rightarrow> (string \<times> nat) list" where
  "ward_rows tc wid = concat (map (\<lambda>((w, tt), c). if w = wid then [(tt, c)] else []) tc)"

text \<open>Line 169: for every ward id of the table, the dict zipped from its rows.\<close>

definition ward_tree_dict :: "((int \<times> string) \<times> nat) list \<Rightarrow> (int \<times> (string \<times> nat) list) list" where
  "ward_tree_dict tc =
     py_dict (map (\<lambda>wid. (wid, py_dict (ward_rows tc wid))) (sort (remdups (map (fst \<circ> fst) tc))))"

text \<open>Lines 172 to 178.\<close>

definition school_counts ::
  "('g \<Rightarrow> 'g \<Rightarrow> bool) \<Rightarrow> 'g feature list \<Rightarrow> 'g ward list \<Rightarrow> (int \<times> nat) list" where
  "school_counts is_within schools wards =
     groupby_size (map snd (dropna_ward (sjoin_left is_within geom schools wards)))"

definition school_count_dict ::
  "('g \<Rightarrow> 'g \<Rightarrow> bool) \<Rightarrow> 'g feature list \<Rightarrow> 'g ward list \<Rightarrow> (int \<times> nat) list" where
  "school_count_dict is_within schools wards = py_dict (school_counts is_within schools wards)"

subsection \<open>What the aggregates are compared with\<close>

text \<open>
  Direct recounts, in the words of the claims: the pairs of a point and a ward whose
  polygon the point is within, the points that are within at least one ward polygon, and
  the points within the polygon of one ward.
\<close>

definition within_pairs ::
  "('g \<Rightarrow> 'g \<Rightarrow> bool) \<Rightarrow> ('a \<Rightarrow> 'g) \<Rightarrow> 'a list \<Rightarrow> 'g ward list \<Rightarrow> ('a \<times> 'g ward) list" where
  "within_pairs is_within gm pts wards =
     filter (\<lambda>(p, w). is_within (gm p) (geometry w)) (List.product pts wards)"




section \<open>Step 8: attaching the statistics, simplification and export\<close>

record 'g ward_out = "'g ward" +
  num_schools :: int
  avg_elev :: "f64 option"
  tree_dist :: string

text \<open>
  Lines 185 to 187 for one ward. \<^verbatim>\<open>Series.map(dict)\<close> gives a missing value for an id
  that is not a key; \<^verbatim>\<open>fillna(0).astype(int)\<close> turns it into 0 for the school count.
  \<open>dumps\<close> is \<^verbatim>\<open>json.dumps\<close>.
\<close>

definition attach_stats ::
  "(int \<times> nat) list \<Rightarrow> (int \<times> f64 option) list \<Rightarrow> (int \<times> (string \<times> nat) list) list \<Rightarrow>
   ((string \<times> nat) list \<Rightarrow> string) \<Rightarrow> 'g ward \<Rightarrow> 'g ward_out" where
  "attach_stats scd elevs wtd dumps w =
     \<lparr>ward_id = ward_id w, ward_name = ward_name w, geometry = geometry w,
      num_schools = int (dict_get scd (ward_id w) 0),
      avg_elev = (case map_of elevs (ward_id w) of None \<Rightarrow> None | Some v \<Rightarrow> v),
      tree_dist = dumps (dict_get wtd (ward_id w) [])\<rparr>"

definition SIMPLIFY_TOLERANCE :: real where
  "SIMPLIFY_TOLERANCE = 1 / 10000"

text \<open>Lines 190 and 191: a copy of the ward table whose geometry column is simplified.\<close>

definition simplify_wards :: "(real \<Rightarrow> 'g \<Rightarrow> 'g) \<Rightarrow> 'g ward_out list \<Rightarrow> 'g ward_out list" where
  "simplify_wards simplify ws =
     map (\<lambda>w. w\<lparr>geometry := simplify SIMPLIFY_TOLERANCE (geometry w)\<rparr>) ws"

text \<open>The five files written by lines 194 to 199.\<close>

record 'g outputs =
  wards_geojson :: "'g ward_out list"
  trees_geojson :: "'g tree list"
  schools_geojson :: "'g feature list"
  ward_stats_csv :: "(int \<times> pyval \<times> int \<times> f64 option) list"
  ward_tree_counts_csv :: "((int \<times> string) \<times> nat) list"

text \<open>
  Steps 5 to 8 on the loaded layers, in the order of the script: statistics on the ward
  table as loaded, then the simplified copy, then the writes.
\<close>

definition process ::
  "('g \<Rightarrow> 'g \<Rightarrow> bool) \<Rightarrow> (real \<Rightarrow> 'g \<Rightarrow> 'g) \<Rightarrow> ((string \<times> nat) list \<Rightarrow> string) \<Rightarrow>
   ('g \<Rightarrow> 'g) \<Rightarrow> ('g \<Rightarrow> f64 list option) \<Rightarrow> f64 option \<Rightarrow>
   'g ward list \<Rightarrow> 'g tree list \<Rightarrow> 'g feature list \<Rightarrow> 'g outputs" where
  "process is_within simplify dumps to_dem mask_fn nodata wards trees schools =
     (let elevs = avg_elevs to_dem mask_fn nodata wards;
          tc = tree_counts is_within trees wards;
          wtd = ward_tree_dict tc;
          scd = school_count_dict is_within schools wards;
          wards_full = map (attach_stats scd elevs wtd dumps) wards;
          wards_simpl = simplify_wards simplify wards_full
      in \<lparr>wards_geojson = wards_simpl,
          trees_geojson = trees,
          schools_geojson = schools,
          ward_stats_csv =
            map (\<lambda>w. (ward_id w, ward_name w, num_schools w, avg_elev w)) wards_simpl,
          ward_tree_counts_csv = tc\<rparr>)"

text \<open>The attribute columns of an exported ward, without its geometry.\<close>

definition ward_attrs :: "'g ward_out \<Rightarrow> int \<times> pyval \<times> int \<times> f64 option \<times> string" where
  "ward_attrs w = (ward_id w, ward_name w, num_schools w, avg_elev w, tree_dist w)"

section \<open>A small geometry for the examples\<close>

text \<open>
  Points and axis-parallel boxes with integer coordinates instantiate the geometry
  parameters in the examples below: a point is within a box when it lies strictly inside.
\<close>

datatype shape = Pt int int | Box int int int int

fun shape_within :: "shape \<Rightarrow> shape \<Rightarrow> bool" where
  "shape_within (Pt x y) (Box x0 y0 x1 y1) = (x0 < x \<and> x < x1 \<and> y0 < y \<and> y < y1)"
| "shape_within _ _ = False"


definition keep_coords :: "nat \<Rightarrow> nat \<Rightarrow> shape \<Rightarrow> shape" where
  "keep_coords src dst g = g"

definition keep_shape :: "real \<Rightarrow> shape \<Rightarrow> shape" where
  "keep_shape tol g = g"







definition plain_wards :: "shape ward list" where
  "plain_wards =
     [\<lparr>ward_id = 1, ward_name = PStr ''Ward 1'', geometry = Box 0 0 4 4\<rparr>,
      \<lparr>ward_id = 2, ward_name = PStr ''Ward 2'', geometry = Box 4 0 8 4\<rparr>]"

text \<open>Tree files: a table with the species column, a path that does not exist, a file
  that cannot be parsed, and a table without any type column.\<close>

definition tree_row :: "pyval \<Rightarrow> shape \<Rightarrow> shape feature" where
  "tree_row species g =
     \<lparr>vals = (\<lambda>c. if c = ''TreeName'' then species else PNaN), geom = g\<rparr>"

definition species_gdf :: "shape gdf" where
  "species_gdf =
     \<lparr>crs = Some 4326, columns = [''Name'', ''TreeName''],
      rows = [tree_row (PStr '' Neem '') (Pt 1 1), tree_row (PStr []) (Pt 2 2),
              tree_row PNone (Pt 3 3)]\<rparr>"


definition east_file :: "shape tree_file" where
  "east_file = \<lparr>path = ''east.kml'', file_exists = True, content = ReadOk species_gdf\<rparr>"

definition south_file :: "shape tree_file" where
  "south_file = \<lparr>path = ''south.kml'', file_exists = False, content = ReadFails\<rparr>"

definition west_file :: "shape tree_file" where
  "west_file = \<lparr>path = ''west.kml'', file_exists = True, content = ReadFails\<rparr>"




definition five_trees :: "shape tree list" where
  "five_trees =
     [\<lparr>tree_type = ''Neem'', tree_geom = Pt 1 1\<rparr>,
      \<lparr>tree_type = ''Peepal'', tree_geom = Pt 5 1\<rparr>,
      \<lparr>tree_type = ''Neem'', tree_geom = Pt 2 2\<rparr>,
      \<lparr>tree_type = ''Neem'', tree_geom = Pt 4 2\<rparr>,
      \<lparr>tree_type = ''Peepal'', tree_geom = Pt 20 20\<rparr>]"

definition school_at :: "shape \<Rightarrow> shape feature" where
  "school_at g = \<lparr>vals = (\<lambda>c. if c = ''name'' then PStr ''School'' else PNaN), geom = g\<rparr>"

definition same_geom :: "shape \<Rightarrow> shape" where
  "same_geom g = g"

definition sample_dumps :: "(string \<times> nat) list \<Rightarrow> string" where
  "sample_dumps d = concat (map (\<lambda>(k, v). k @ ''='' @ digits v @ '';'') d)"

definition sample_loads :: "string \<Rightarrow> (string \<times> nat) list option" where
  "sample_loads s =
     (if s = [] then Some []
      else if s = ''Neem=2;'' then Some [(''Neem'', 2)]
      else if s = ''Peepal=1;'' then Some [(''Peepal'', 1)]
      else None)"

definition sample_mask :: "shape \<Rightarrow> f64 list option" where
  "sample_mask g =
     (if g = Box 0 0 4 4 then Some [Fin 900, Fin (-9999), Fin 920, NaN]
      else if g = Box 4 0 8 4 then Some [Fin (-9999), Fin (-9999)]
      else None)"


definition two_schools :: "shape feature list" where
  "two_schools = [school_at (Pt 1 1), school_at (Pt 9 9)]"

text \<open>The ward layer exported for the two plain wards, the five trees and the two schools.\<close>

definition exported_plain_wards :: "shape ward_out list" where
  "exported_plain_wards =
     [\<lparr>ward_id = 1, ward_name = PStr ''Ward 1'', geometry = Box 0 0 4 4,
       num_schools = 1, avg_elev = Some (Fin 910), tree_dist = ''Neem=2;''\<rparr>,
      \<lparr>ward_id = 2, ward_name = PStr ''Ward 2'', geometry = Box 4 0 8 4,
       num_schools = 0, avg_elev = None, tree_dist = ''Peepal=1;''\<rparr>]"


fun coarse_shape :: "real \<Rightarrow> shape \<Rightarrow> shape" where
  "coarse_shape tol (Box x0 y0 x1 y1) = Box x0 y0 x1 (y1 - 1)"
| "coarse_shape tol (Pt x y) = Pt x y"

section \<open>Facts about the ward loader\<close>











lemma update_fresh: "k \<notin> fst ` set al \<Longrightarrow> AList.update k v al = al @ [(k, v)]"
  by (induction al) auto

lemma fold_update_distinct:
  "distinct (map f xs) \<Longrightarrow> f ` set xs \<inter> fst ` set acc = {} \<Longrightarrow>
   fold (\<lambda>x. AList.update (f x) (g x)) xs acc = acc @ map (\<lambda>x. (f x, g x)) xs"
proof (induction xs arbitrary: acc)
  case Nil then show ?case by simp
next
  case (Cons x xs)
  have fresh: "f x \<notin> fst ` set acc" using Cons.prems(2) by auto
  have "f ` set xs \<inter> fst ` set (acc @ [(f x, g x)]) = {}"
    using Cons.prems by auto
  then show ?case using Cons.IH[of "acc @ [(f x, g x)]"] Cons.prems(1) fresh
    by (simp add: update_fresh)
qed


lemma map_ward_name_make:
  "length rs = length ids \<Longrightarrow>
   map ward_name (map (make_ward d) (zip rs ids)) =
     map (\<lambda>(r, wid). assign_ward_name d r wid) (zip rs ids)"
  by (induction rs ids rule: list_induct2) (auto simp: make_ward_def)




section \<open>When the ward loader fails\<close>




section \<open>Uniqueness of ward ids\<close>




section \<open>Tree type normalisation\<close>








lemma load_tree_layer_eq:
  "load_tree_layer tr f =
     (case content f of ReadFails \<Rightarrow> Inl ReadError
      | ReadOk raw \<Rightarrow> if crs raw = None then Inl CrsError else Inr (reprojected_layer tr f))"
  by (auto simp: load_tree_layer_def reprojected_layer_def to_crs_def normalize_tree_type_def
      split: file_read.splits option.splits)

lemma load_tree_layer_ok:
  "file_exists f \<Longrightarrow> (\<exists>l. load_tree_layer tr f = Inr l) \<longleftrightarrow> loaded_ok f"
  by (auto simp: load_tree_layer_eq loaded_ok_def split: file_read.splits)

lemma load_tree_layer_Inr: "load_tree_layer tr f = Inr l \<Longrightarrow> l = reprojected_layer tr f"
  by (auto simp: load_tree_layer_eq split: file_read.splits if_splits)

lemma tree_layers_eq:
  "tree_layers tr files = map (reprojected_layer tr) (filter loaded_ok files)"
proof (induction files)
  case Nil then show ?case by simp
next
  case (Cons f fs)
  show ?case
  proof (cases "file_exists f")
    case False
    then show ?thesis using Cons by (simp add: loaded_ok_def)
  next
    case True
    show ?thesis
    proof (cases "load_tree_layer tr f")
      case (Inl e)
      then have "\<not> loaded_ok f" using load_tree_layer_ok[OF True, of tr] by auto
      then show ?thesis using Cons True Inl by simp
    next
      case (Inr l)
      then have "loaded_ok f" using load_tree_layer_ok[OF True, of tr] by auto
      then show ?thesis using Cons True Inr load_tree_layer_Inr[OF Inr] by simp
    qed
  qed
qed

lemma tree_warnings_eq:
  "tree_warnings tr files = map path (filter (\<lambda>f. file_exists f \<and> \<not> loaded_ok f) files)"
proof (induction files)
  case Nil then show ?case by simp
next
  case (Cons f fs)
  show ?case
  proof (cases "file_exists f")
    case False
    then show ?thesis using Cons by simp
  next
    case True
    show ?thesis
    proof (cases "load_tree_layer tr f")
      case (Inl e)
      then have "\<not> loaded_ok f" using load_tree_layer_ok[OF True, of tr] by auto
      then show ?thesis using Cons True Inl by simp
    next
      case (Inr l)
      then have "loaded_ok f" using load_tree_layer_ok[OF True, of tr] by auto
      then show ?thesis using Cons True Inr by simp
    qed
  qed
qed





section \<open>Loading the tree files\<close>

text \<open>
  Claim C7: a tree file that does not exist is skipped, a file for which the read (or the
  reprojection) raises is skipped with a printed warning, the load fails exactly when no
  file was loaded, and otherwise the result is the concatenation, in file order, of the
  loaded layers, each reprojected to EPSG:4326.
\<close>

theorem load_trees_skips_bad_files:
  "(load_trees tr files = Inl NoValidTreeFiles \<longleftrightarrow> (\<forall>f\<in>set files. \<not> loaded_ok f)) \<and>
   (\<forall>e. load_trees tr files = Inl e \<longrightarrow> e = NoValidTreeFiles \<and> is_load_error e) \<and>
   ((\<exists>f\<in>set files. loaded_ok f) \<longrightarrow>
      load_trees tr files = Inr (concat (map (reprojected_layer tr) (filter loaded_ok files)))) \<and>
   tree_warnings tr files = map path (filter (\<lambda>f. file_exists f \<and> \<not> loaded_ok f) files)"
proof -
  have e: "tree_layers tr files = [] \<longleftrightarrow> (\<forall>f\<in>set files. \<not> loaded_ok f)"
    by (simp add: tree_layers_eq filter_empty_conv)
  have a: "load_trees tr files = Inl NoValidTreeFiles \<longleftrightarrow> (\<forall>f\<in>set files. \<not> loaded_ok f)"
    using e by (simp add: load_trees_def)
  have b: "\<forall>e. load_trees tr files = Inl e \<longrightarrow> e = NoValidTreeFiles \<and> is_load_error e"
    by (auto simp: load_trees_def is_load_error_def split: if_splits)
  have c: "(\<exists>f\<in>set files. loaded_ok f) \<longrightarrow>
      load_trees tr files = Inr (concat (map (reprojected_layer tr) (filter loaded_ok files)))"
    using e by (auto simp: load_trees_def tree_layers_eq)
  from a b c tree_warnings_eq[of tr files] show ?thesis by blast
qed

theorem load_trees_skips_bad_files_witness:
  "(\<exists>f\<in>set [south_file, west_file, east_file]. loaded_ok f) \<and>
   load_trees keep_coords [south_file, west_file, east_file] =
     Inr [\<lparr>tree_type = ''Neem'', tree_geom = Pt 1 1\<rparr>, \<lparr>tree_type = [], tree_geom = Pt 2 2\<rparr>,
          \<lparr>tree_type = ''None'', tree_geom = Pt 3 3\<rparr>] \<and>
   tree_warnings keep_coords [south_file, west_file, east_file] = [''west.kml''] \<and>
   \<not> loaded_ok south_file \<and> \<not> loaded_ok west_file \<and>
   load_trees keep_coords [south_file, west_file] = Inl NoValidTreeFiles"
proof -
  have ok: "loaded_ok east_file" by (simp add: loaded_ok_def east_file_def species_gdf_def)
  have ns: "\<not> loaded_ok south_file" by (simp add: loaded_ok_def south_file_def)
  have nw: "\<not> loaded_ok west_file" by (simp add: loaded_ok_def west_file_def)
  have ex: "\<exists>f\<in>set [south_file, west_file, east_file]. loaded_ok f" using ok by simp
  have none: "\<forall>f\<in>set [south_file, west_file]. \<not> loaded_ok f" using ns nw by simp
  note t3 = load_trees_skips_bad_files[of keep_coords "[south_file, west_file, east_file]"]
  note t2 = load_trees_skips_bad_files[of keep_coords "[south_file, west_file]"]
  have l3: "load_trees keep_coords [south_file, west_file, east_file] =
     Inr (concat (map (reprojected_layer keep_coords) (filter loaded_ok [south_file, west_file, east_file])))"
    using t3 ex by blast
  have r: "reprojected_layer keep_coords east_file =
     [\<lparr>tree_type = ''Neem'', tree_geom = Pt 1 1\<rparr>, \<lparr>tree_type = [], tree_geom = Pt 2 2\<rparr>,
          \<lparr>tree_type = ''None'', tree_geom = Pt 3 3\<rparr>]"
    by (simp add: reprojected_layer_def east_file_def species_gdf_def tree_row_def
        normalize_tree_type_def keep_coords_def strip_def py_isspace_def)
  have l3': "load_trees keep_coords [south_file, west_file, east_file] =
     Inr [\<lparr>tree_type = ''Neem'', tree_geom = Pt 1 1\<rparr>, \<lparr>tree_type = [], tree_geom = Pt 2 2\<rparr>,
          \<lparr>tree_type = ''None'', tree_geom = Pt 3 3\<rparr>]"
    using l3 ok ns nw r by simp
  have w3: "tree_warnings keep_coords [south_file, west_file, east_file] = [''west.kml'']"
    using t3 ok ns nw by (simp add: south_file_def west_file_def east_file_def)
  have l2: "load_trees keep_coords [south_file, west_file] = Inl NoValidTreeFiles"
    using t2 none by blast
  from ex l3' w3 ns nw l2 show ?thesis by blast
qed

section \<open>Facts about joins and groupings\<close>

lemma count_list_filter: "count_list xs y = length (filter (\<lambda>x. x = y) xs)"
  by (induction xs) auto

lemma count_list_map_filter: "count_list (map f xs) y = length (filter (\<lambda>x. f x = y) xs)"
  by (induction xs) auto

lemma groupby_size_keys: "map fst (groupby_size keys) = sort (remdups keys)"
  by (simp add: groupby_size_def comp_def)

lemma groupby_size_distinct: "distinct (map fst (groupby_size keys))"
  by (simp add: groupby_size_keys)

lemma groupby_size_mem:
  "(k, c) \<in> set (groupby_size keys) \<longleftrightarrow> k \<in> set keys \<and> c = count_list keys k"
  by (auto simp: groupby_size_def)

lemma groupby_size_positive: "(k, c) \<in> set (groupby_size keys) \<Longrightarrow> 1 \<le> c"
  using count_list_0_iff[of keys k] by (auto simp: groupby_size_mem)



lemma py_dict_distinct: "distinct (map fst kvs) \<Longrightarrow> py_dict kvs = kvs"
proof -
  assume d: "distinct (map fst kvs)"
  have "py_dict kvs = fold (\<lambda>x. AList.update (fst x) (snd x)) kvs []"
    by (simp only: py_dict_def case_prod_unfold)
  also have "\<dots> = [] @ map (\<lambda>x. (fst x, snd x)) kvs"
    by (rule fold_update_distinct) (use d in simp_all)
  finally show ?thesis by simp
qed

lemma dropna_assigned:
  "dropna_ward (map (\<lambda>w. (p, Some (ward_id w))) hits) = map (\<lambda>w. (p, ward_id w)) hits"
  by (induction hits) (auto simp: dropna_ward_def)

lemma dropna_hits:
  "dropna_ward (if hits = [] then [(p, None)] else map (\<lambda>w. (p, Some (ward_id w))) hits) =
     map (\<lambda>w. (p, ward_id w)) hits"
proof (cases "hits = []")
  case True
  then show ?thesis by (simp add: dropna_ward_def)
next
  case False
  then show ?thesis by (simp add: dropna_assigned)
qed

lemma dropna_ward_append: "dropna_ward (xs @ ys) = dropna_ward xs @ dropna_ward ys"
  by (simp add: dropna_ward_def)

lemma within_pairs_Cons:
  "within_pairs is_within gm (p # ps) wards =
     map (Pair p) (filter (\<lambda>w. is_within (gm p) (geometry w)) wards) @
     within_pairs is_within gm ps wards"
  by (simp add: within_pairs_def filter_map comp_def)

lemma dropna_sjoin:
  "dropna_ward (sjoin_left is_within gm pts wards) =
     map (\<lambda>(p, w). (p, ward_id w)) (within_pairs is_within gm pts wards)"
proof (induction pts)
  case Nil
  then show ?case by (simp add: sjoin_left_def dropna_ward_def within_pairs_def)
next
  case (Cons p ps)
  have "sjoin_left is_within gm (p # ps) wards =
     (let hits = filter (\<lambda>w. is_within (gm p) (geometry w)) wards
      in if hits = [] then [(p, None)] else map (\<lambda>w. (p, Some (ward_id w))) hits) @
     sjoin_left is_within gm ps wards"
    by (simp add: sjoin_left_def)
  then show ?case using Cons
    by (simp add: dropna_ward_append dropna_hits within_pairs_Cons Let_def comp_def)
qed

lemma within_pairs_length:
  "length (within_pairs is_within gm pts wards) =
     sum_list (map (\<lambda>p. length (filter (\<lambda>w. is_within (gm p) (geometry w)) wards)) pts)"
  by (induction pts) (simp_all add: within_pairs_Cons, simp add: within_pairs_def)





section \<open>Rows of the table of tree counts\<close>

text \<open>
  Claim C10: every row of the table of counts per ward and tree type has a count of at
  least 1. A row is written only for a pair that occurs among the assigned tree points,
  and its count is the number of (tree, ward) matches with that ward id and tree type.
\<close>

theorem tree_count_rows_positive:
  assumes "((wid, tt), c) \<in> set (ward_tree_counts_csv
     (process is_within simplify dumps to_dem mask_fn nodata wards trees schools))"
  shows "1 \<le> c \<and>
     c = length (filter (\<lambda>(t, w). ward_id w = wid \<and> tree_type t = tt)
           (within_pairs is_within tree_geom trees wards))"
proof -
  let ?keys = "map (\<lambda>(t, wid). (wid, tree_type t))
       (dropna_ward (sjoin_left is_within tree_geom trees wards))"
  from assms have m: "((wid, tt), c) \<in> set (groupby_size ?keys)"
    by (simp add: process_def Let_def tree_counts_def)
  then have pos: "1 \<le> c" by (rule groupby_size_positive)
  from m have "c = count_list ?keys (wid, tt)" by (simp add: groupby_size_mem)
  also have "\<dots> = length (filter (\<lambda>(t, w). ward_id w = wid \<and> tree_type t = tt)
           (within_pairs is_within tree_geom trees wards))"
    by (simp add: dropna_sjoin count_list_map_filter case_prod_unfold comp_def)
  finally show ?thesis using pos by simp
qed


theorem tree_count_rows_positive_witness:
  "((1, ''Neem''), 2) \<in> set (ward_tree_counts_csv
     (process shape_within keep_shape sample_dumps same_geom sample_mask (Some (Fin (- 9999)))
        plain_wards five_trees [])) \<and>
   (1::nat) \<le> 2 \<and>
   2 = length (filter (\<lambda>(t, w). ward_id w = 1 \<and> tree_type t = ''Neem'')
         (within_pairs shape_within tree_geom five_trees plain_wards))"
proof -
  have tc: "tree_counts shape_within five_trees plain_wards =
      [((1, ''Neem''), 2), ((2, ''Peepal''), 1)]"
    by code_simp
  have h: "((1, ''Neem''), 2) \<in> set (ward_tree_counts_csv
     (process shape_within keep_shape sample_dumps same_geom sample_mask (Some (Fin (- 9999)))
        plain_wards five_trees []))"
    by (simp add: process_def Let_def tc)
  from tree_count_rows_positive[OF h] h show ?thesis by simp
qed

section \<open>The spatial join and the total of the tree counts\<close>




section \<open>School counts per ward\<close>





lemma process_wards:
  "wards_geojson (process is_within simplify dumps to_dem mask_fn nodata wards trees schools) =
     simplify_wards simplify
       (map (attach_stats (school_count_dict is_within schools wards)
               (avg_elevs to_dem mask_fn nodata wards)
               (ward_tree_dict (tree_counts is_within trees wards)) dumps) wards)"
  by (simp add: process_def Let_def)






section \<open>The serialised tree distribution\<close>

lemma map_of_graph: "map_of (map (\<lambda>k. (k, f k)) ks) k = (if k \<in> set ks then Some (f k) else None)"
  by (induction ks) auto

lemma ward_rows_keys:
  "tt \<in> fst ` set (ward_rows tc wid) \<Longrightarrow> (wid, tt) \<in> fst ` set tc"
  by (induction tc) (auto simp: ward_rows_def split: if_splits)

lemma ward_rows_Cons:
  "ward_rows (((w, tt), c) # tc) wid =
     (if w = wid then (tt, c) # ward_rows tc wid else ward_rows tc wid)"
  by (simp add: ward_rows_def)

lemma ward_rows_distinct:
  "distinct (map fst tc) \<Longrightarrow> distinct (map fst (ward_rows tc wid))"
proof (induction tc)
  case Nil then show ?case by (simp add: ward_rows_def)
next
  case (Cons row tc)
  obtain w tt c where row: "row = ((w, tt), c)" by (metis prod.collapse)
  have ih: "distinct (map fst (ward_rows tc wid))" using Cons by simp
  have "(w, tt) \<notin> fst ` set tc" using Cons.prems row by simp
  then have "w = wid \<Longrightarrow> tt \<notin> fst ` set (ward_rows tc wid)"
    using ward_rows_keys[of tt tc wid] by blast
  then show ?case using ih row by (auto simp: ward_rows_Cons)
qed

lemma ward_rows_empty: "wid \<notin> set (map (fst \<circ> fst) tc) \<Longrightarrow> ward_rows tc wid = []"
  by (induction tc) (auto simp: ward_rows_def)

lemma ward_rows_sum:
  "sum_list (map snd (ward_rows tc wid)) =
     sum_list (map snd (filter (\<lambda>((w, tt), c). w = wid) tc))"
  by (induction tc) (auto simp: ward_rows_def)

lemma ward_tree_dict_lookup:
  assumes "distinct (map fst tc)"
  shows "dict_get (ward_tree_dict tc) wid [] = ward_rows tc wid"
proof -
  let ?ks = "sort (remdups (map (fst \<circ> fst) tc))"
  have inner: "\<And>k. py_dict (ward_rows tc k) = ward_rows tc k"
    using ward_rows_distinct[OF assms] by (simp add: py_dict_distinct)
  have "distinct (map fst (map (\<lambda>k. (k, ward_rows tc k)) ?ks))" by (simp add: comp_def)
  then have "ward_tree_dict tc = map (\<lambda>k. (k, ward_rows tc k)) ?ks"
    unfolding ward_tree_dict_def inner by (rule py_dict_distinct)
  then have "dict_get (ward_tree_dict tc) wid [] =
     (if wid \<in> set ?ks then ward_rows tc wid else [])"
    by (simp add: dict_get_def map_of_graph)
  then show ?thesis using ward_rows_empty[of wid tc] by auto
qed

lemma tree_counts_distinct: "distinct (map fst (tree_counts is_within trees wards))"
  by (simp add: tree_counts_def groupby_size_distinct)

lemma tree_dist_export:
  assumes "w \<in> set (wards_geojson
     (process is_within simplify dumps to_dem mask_fn nodata wards trees schools))"
  shows "tree_dist w = dumps (dict_get (ward_tree_dict (tree_counts is_within trees wards)) (ward_id w) [])"
  using assms by (auto simp: process_wards simplify_wards_def attach_stats_def)

text \<open>
  Claim C4: for every exported ward, decoding its serialised tree distribution and
  summing the values gives the sum of the counts of the rows of that ward id in the table
  of tree counts. The JSON codec belongs to the standard library: \<open>dumps\<close> and \<open>loads\<close>
  are parameters, and the hypothesis is that decoding inverts encoding on the dict the
  script serialises for the ward.
\<close>

theorem tree_dist_total_matches_table:
  assumes "w \<in> set (wards_geojson
     (process is_within simplify dumps to_dem mask_fn nodata wards trees schools))"
    and "loads (dumps (dict_get (ward_tree_dict (tree_counts is_within trees wards)) (ward_id w) [])) =
         Some (dict_get (ward_tree_dict (tree_counts is_within trees wards)) (ward_id w) [])"
  shows "\<exists>d. loads (tree_dist w) = Some d \<and>
     sum_list (map snd d) =
       sum_list (map snd (filter (\<lambda>((wid, tt), c). wid = ward_id w)
         (ward_tree_counts_csv
            (process is_within simplify dumps to_dem mask_fn nodata wards trees schools))))"
proof -
  let ?tc = "tree_counts is_within trees wards"
  let ?d = "dict_get (ward_tree_dict ?tc) (ward_id w) []"
  have csv: "ward_tree_counts_csv
      (process is_within simplify dumps to_dem mask_fn nodata wards trees schools) = ?tc"
    by (simp add: process_def Let_def)
  have l: "loads (tree_dist w) = Some ?d"
    using tree_dist_export[OF assms(1)] assms(2) by simp
  have "?d = ward_rows ?tc (ward_id w)"
    by (rule ward_tree_dict_lookup[OF tree_counts_distinct])
  then have "sum_list (map snd ?d) =
       sum_list (map snd (filter (\<lambda>((wid, tt), c). wid = ward_id w) ?tc))"
    by (simp add: ward_rows_sum)
  then show ?thesis using l csv by simp
qed

theorem tree_dist_total_matches_table_witness:
  "hd exported_plain_wards \<in> set (wards_geojson
     (process shape_within keep_shape sample_dumps same_geom sample_mask (Some (Fin (- 9999)))
        plain_wards five_trees two_schools)) \<and>
   dict_get (ward_tree_dict (tree_counts shape_within five_trees plain_wards)) 1 [] = [(''Neem'', 2)] \<and>
   sample_loads (sample_dumps [(''Neem'', 2)]) = Some [(''Neem'', 2)] \<and>
   sample_loads (tree_dist (hd exported_plain_wards)) = Some [(''Neem'', 2)] \<and>
   sum_list (map snd [(''Neem'', 2::nat)]) = 2 \<and>
   sum_list (map snd (filter (\<lambda>((wid, tt), c). wid = 1)
     (ward_tree_counts_csv
        (process shape_within keep_shape sample_dumps same_geom sample_mask (Some (Fin (- 9999)))
           plain_wards five_trees two_schools)))) = 2"
proof -
  let ?out = "process shape_within keep_shape sample_dumps same_geom sample_mask
     (Some (Fin (- 9999))) plain_wards five_trees two_schools"
  have ex: "wards_geojson ?out = exported_plain_wards" by code_simp
  have h1: "hd exported_plain_wards \<in> set (wards_geojson ?out)"
    unfolding ex by (simp add: exported_plain_wards_def)
  have id1: "ward_id (hd exported_plain_wards) = 1" by (simp add: exported_plain_wards_def)
  have dg: "dict_get (ward_tree_dict (tree_counts shape_within five_trees plain_wards)) 1 [] =
      [(''Neem'', 2)]"
    by code_simp
  have rt: "sample_loads (sample_dumps [(''Neem'', 2)]) = Some [(''Neem'', 2)]"
    by code_simp
  have h2: "sample_loads (sample_dumps (dict_get (ward_tree_dict
        (tree_counts shape_within five_trees plain_wards)) (ward_id (hd exported_plain_wards)) [])) =
      Some (dict_get (ward_tree_dict (tree_counts shape_within five_trees plain_wards))
        (ward_id (hd exported_plain_wards)) [])"
    unfolding id1 dg by (rule rt)
  have ld: "sample_loads (tree_dist (hd exported_plain_wards)) = Some [(''Neem'', 2)]"
    by code_simp
  from tree_dist_total_matches_table[where loads = sample_loads and dumps = sample_dumps, OF h1 h2]
  obtain d where d1: "sample_loads (tree_dist (hd exported_plain_wards)) = Some d"
    and d2: "sum_list (map snd d) =
       sum_list (map snd (filter (\<lambda>((wid, tt), c). wid = ward_id (hd exported_plain_wards))
         (ward_tree_counts_csv ?out)))"
    by blast
  from d1 ld have "d = [(''Neem'', 2)]" by simp
  with d2 have s: "sum_list (map snd (filter (\<lambda>((wid, tt), c). wid = 1) (ward_tree_counts_csv ?out))) = 2"
    by (simp only: id1) simp
  have s0: "sum_list (map snd [(''Neem'', 2::nat)]) = 2" by simp
  from h1 dg rt ld s0 s show ?thesis by blast
qed

section \<open>Average elevation\<close>





















section \<open>Simplification comes last\<close>

text \<open>
  Claim C8: only the geometry column of the exported ward layer is simplified. The tree
  and school layers are written as loaded; every attribute of an exported ward is the one
  computed from the ward table before simplification, so the attribute columns and both
  tables are the same whatever the simplification does to the polygons.
\<close>

theorem simplification_leaves_statistics:
  "trees_geojson (process is_within simplify dumps to_dem mask_fn nodata wards trees schools) = trees \<and>
   schools_geojson (process is_within simplify dumps to_dem mask_fn nodata wards trees schools) = schools \<and>
   map geometry
     (wards_geojson (process is_within simplify dumps to_dem mask_fn nodata wards trees schools)) =
     map (\<lambda>w. simplify SIMPLIFY_TOLERANCE (geometry w)) wards \<and>
   map ward_attrs
     (wards_geojson (process is_within simplify dumps to_dem mask_fn nodata wards trees schools)) =
     map (\<lambda>w. ward_attrs (attach_stats (school_count_dict is_within schools wards)
                 (avg_elevs to_dem mask_fn nodata wards)
                 (ward_tree_dict (tree_counts is_within trees wards)) dumps w)) wards \<and>
   map ward_attrs
     (wards_geojson (process is_within simplify dumps to_dem mask_fn nodata wards trees schools)) =
     map ward_attrs
     (wards_geojson (process is_within simplify' dumps to_dem mask_fn nodata wards trees schools)) \<and>
   ward_stats_csv (process is_within simplify dumps to_dem mask_fn nodata wards trees schools) =
     ward_stats_csv (process is_within simplify' dumps to_dem mask_fn nodata wards trees schools) \<and>
   ward_tree_counts_csv (process is_within simplify dumps to_dem mask_fn nodata wards trees schools) =
     tree_counts is_within trees wards"
  by (simp add: process_def Let_def simplify_wards_def ward_attrs_def attach_stats_def comp_def)

theorem simplification_leaves_statistics_witness:
  "map geometry (wards_geojson
     (process shape_within coarse_shape sample_dumps same_geom sample_mask (Some (Fin (- 9999)))
        plain_wards five_trees two_schools)) = [Box 0 0 4 3, Box 4 0 8 3] \<and>
   map ward_attrs (wards_geojson
     (process shape_within coarse_shape sample_dumps same_geom sample_mask (Some (Fin (- 9999)))
        plain_wards five_trees two_schools)) = map ward_attrs exported_plain_wards \<and>
   trees_geojson
     (process shape_within coarse_shape sample_dumps same_geom sample_mask (Some (Fin (- 9999)))
        plain_wards five_trees two_schools) = five_trees"
proof -
  let ?nd = "Some (Fin (- 9999))"
  note t = simplification_leaves_statistics[of shape_within coarse_shape sample_dumps same_geom
      sample_mask ?nd plain_wards five_trees two_schools keep_shape]
  have ex: "wards_geojson (process shape_within keep_shape sample_dumps same_geom sample_mask ?nd
      plain_wards five_trees two_schools) = exported_plain_wards"
    by code_simp
  have g: "map geometry (wards_geojson
     (process shape_within coarse_shape sample_dumps same_geom sample_mask ?nd
        plain_wards five_trees two_schools)) = [Box 0 0 4 3, Box 4 0 8 3]"
    using t by (simp add: plain_wards_def)
  have a: "map ward_attrs (wards_geojson
     (process shape_within coarse_shape sample_dumps same_geom sample_mask ?nd
        plain_wards five_trees two_schools)) = map ward_attrs exported_plain_wards"
  proof -
    from t have "map ward_attrs (wards_geojson
       (process shape_within coarse_shape sample_dumps same_geom sample_mask ?nd
          plain_wards five_trees two_schools)) =
      map ward_attrs (wards_geojson
       (process shape_within keep_shape sample_dumps same_geom sample_mask ?nd
          plain_wards five_trees two_schools))"
      by blast
    then show ?thesis by (simp only: ex)
  qed
  have tr: "trees_geojson
     (process shape_within coarse_shape sample_dumps same_geom sample_mask ?nd
        plain_wards five_trees two_schools) = five_trees"
    using t by blast
  from g a tr show ?thesis by blast
qed


end
